theory Spec2Isabelle
  imports Complex_Main "HOL-Library.Sublist"
begin

section \<open>JavaScript values reaching the server's route handlers\<close>

text \<open>
  A request body is the JSON object parsed by Express. A field that is missing reads
  as \<open>undefined\<close>, which is \<open>None\<close> here; the other values are those JSON can carry.
  Strings are lists of characters; numbers are rationals (JSON has neither NaN nor
  infinities).
\<close>

datatype json =
    JNull
  | JBool bool
  | JNum rat
  | JStr string
  | JArr "json list"
  | JObj "(string \<times> json) list"

type_synonym js_object = "string \<rightharpoonup> json"

text \<open>JavaScript truthiness, as used by \<open>!x\<close> and \<open>x && ...\<close>; \<open>undefined\<close> is falsy.\<close>

fun truthy :: "json option \<Rightarrow> bool" where
  "truthy None = False"
| "truthy (Some JNull) = False"
| "truthy (Some (JBool b)) = b"
| "truthy (Some (JNum n)) = (n \<noteq> 0)"
| "truthy (Some (JStr s)) = (s \<noteq> [])"
| "truthy (Some (JArr xs)) = True"
| "truthy (Some (JObj kvs)) = True"

text \<open>\<open>typeof v === 'string'\<close>, returning the string when it is one.\<close>

fun as_string :: "json option \<Rightarrow> string option" where
  "as_string (Some (JStr s)) = Some s"
| "as_string v = None"

text \<open>A thrown JavaScript error: its class name and its message.\<close>

datatype js_error = JsError (err_name: string) (err_message: string)

text \<open>
  What a handler leaves on the Express response: the status code (200 unless
  \<open>res.status\<close> was called) and the object given to \<open>res.json\<close>.
\<close>

record response =
  status :: nat
  body :: "(string \<times> json) list"

record request =
  req_body :: "js_object option"
  req_query :: "js_object option"

text \<open>Destructuring an undefined \<open>req.body\<close> throws a TypeError.\<close>

definition destructure_error :: js_error where
  "destructure_error = JsError ''TypeError'' ''Cannot destructure property of undefined''"

text \<open>Reading a field of \<open>req.body\<close>.\<close>

definition body_field :: "request \<Rightarrow> string \<Rightarrow> js_error + json option" where
  "body_field req name =
     (case req_body req of
        None \<Rightarrow> Inl destructure_error
      | Some b \<Rightarrow> Inr (b name))"

section \<open>POST /diffs for a feature worktree (apps/server/src/routes/worktree/routes/diffs.ts)\<close>

record diff_result =
  diff :: string
  files :: "json list"
  hasChanges :: bool

text \<open>
  The handler's collaborators, which are not part of the route file: Node's
  \<open>path.join\<close> (platform dependent), \<open>fs.access\<close> (True when the path is accessible),
  \<open>getGitRepositoryDiffs\<close> (which may reject) and \<open>getErrorMessage\<close>.
\<close>

record diffs_env =
  path_join :: "string list \<Rightarrow> string"
  fs_access :: "string \<Rightarrow> bool"
  getGitRepositoryDiffs :: "string \<Rightarrow> js_error + diff_result"
  getErrorMessage :: "js_error \<Rightarrow> string"

text \<open>The file-system and git calls a handler makes, in order.\<close>

datatype io_call = Access string | Diffs string

definition error_response :: "nat \<Rightarrow> string \<Rightarrow> response" where
  "error_response code msg =
     \<lparr>status = code, body = [(''success'', JBool False), (''error'', JStr msg)]\<rparr>"

definition diff_response :: "diff_result \<Rightarrow> response" where
  "diff_response r =
     \<lparr>status = 200,
      body = [(''success'', JBool True), (''diff'', JStr (diff r)),
              (''files'', JArr (files r)), (''hasChanges'', JBool (hasChanges r))]\<rparr>"

definition empty_diff_response :: response where
  "empty_diff_response =
     \<lparr>status = 200,
      body = [(''success'', JBool True), (''diff'', JStr ''''),
              (''files'', JArr []), (''hasChanges'', JBool False)]\<rparr>"

text \<open>
  \<open>path.join(projectPath, ".automaker", "worktrees", featureId)\<close>. Node validates that
  every argument is a string and throws a TypeError otherwise.
\<close>

definition worktreePath :: "diffs_env \<Rightarrow> string \<Rightarrow> string \<Rightarrow> string" where
  "worktreePath env projectPath featureId =
     path_join env [projectPath, ''.automaker'', ''worktrees'', featureId]"

definition path_type_error :: js_error where
  "path_type_error = JsError ''TypeError'' ''The path argument must be of type string''"

text \<open>The fallback of the inner \<open>catch\<close>: diffs of the main project path.\<close>

definition diffs_fallback :: "diffs_env \<Rightarrow> string \<Rightarrow> response \<times> io_call list" where
  "diffs_fallback env projectPath =
     (case getGitRepositoryDiffs env projectPath of
        Inr r \<Rightarrow> (diff_response r, [Diffs projectPath])
      | Inl fallbackError \<Rightarrow> (empty_diff_response, [Diffs projectPath]))"

text \<open>
  The inner \<open>try\<close>: access the worktree, then take its diffs; any failure falls back.
  \<open>res.json\<close> and \<open>logError\<close> are taken to return normally.
\<close>

definition diffs_attempt :: "diffs_env \<Rightarrow> string \<Rightarrow> string \<Rightarrow> response \<times> io_call list" where
  "diffs_attempt env projectPath wt =
     (if fs_access env wt then
        (case getGitRepositoryDiffs env wt of
           Inr r \<Rightarrow> (diff_response r, [Access wt, Diffs wt])
         | Inl innerError \<Rightarrow>
             (let (res, calls) = diffs_fallback env projectPath
              in (res, [Access wt, Diffs wt] @ calls)))
      else
        (let (res, calls) = diffs_fallback env projectPath
         in (res, [Access wt] @ calls)))"

definition createDiffsHandler :: "diffs_env \<Rightarrow> request \<Rightarrow> response \<times> io_call list" where
  "createDiffsHandler env req =
     (case body_field req ''projectPath'' of
        Inl error \<Rightarrow> (error_response 500 (getErrorMessage env error), [])
      | Inr projectPath \<Rightarrow>
          (case body_field req ''featureId'' of
             Inl error \<Rightarrow> (error_response 500 (getErrorMessage env error), [])
           | Inr featureId \<Rightarrow>
               if \<not> truthy projectPath \<or> \<not> truthy featureId then
                 (error_response 400 ''projectPath and featureId required'', [])
               else
                 (case (as_string projectPath, as_string featureId) of
                    (Some p, Some f) \<Rightarrow> diffs_attempt env p (worktreePath env p f)
                  | _ \<Rightarrow> (error_response 500 (getErrorMessage env path_type_error), []))))"

section \<open>POST /diffs for the main project (second document of unnamed/part_007)\<close>

text \<open>
  The sibling handler for the main worktree, also called \<open>createDiffsHandler\<close> in its
  file, passes \<open>projectPath\<close> to \<open>getGitRepositoryDiffs\<close> as it is. Nothing before the
  call requires a string, so the collaborator takes the raw value. The handler returns
  the response and the arguments of its \<open>getGitRepositoryDiffs\<close> calls.
\<close>

definition createGitDiffsHandler ::
  "(json \<Rightarrow> js_error + diff_result) \<Rightarrow> (js_error \<Rightarrow> string) \<Rightarrow> request \<Rightarrow> response \<times> json list" where
  "createGitDiffsHandler getDiffs getMessage req =
     (case body_field req ''projectPath'' of
        Inl error \<Rightarrow> (error_response 500 (getMessage error), [])
      | Inr projectPath \<Rightarrow>
          (case projectPath of
             None \<Rightarrow> (error_response 400 ''projectPath required'', [])
           | Some v \<Rightarrow>
               if \<not> truthy (Some v) then (error_response 400 ''projectPath required'', [])
               else
                 (case getDiffs v of
                    Inr r \<Rightarrow> (diff_response r, [v])
                  | Inl innerError \<Rightarrow> (empty_diff_response, [v]))))"

section \<open>Path validation middleware (unnamed/part_005)\<close>

text \<open>
  \<open>validatePath\<close> comes from the platform package. It returns normally or throws; the
  middleware tells a \<open>PathNotAllowedError\<close> (with its message) from every other error.
\<close>

datatype thrown = PathNotAllowedError string | Unexpected js_error

type_synonym validator = "string \<Rightarrow> thrown option"

text \<open>
  \<open>getParamValue\<close>: the body is read first, then the query; a JSON \<open>null\<close> in the body
  is not \<open>undefined\<close> and is returned.
\<close>

definition getParamValue :: "request \<Rightarrow> string \<Rightarrow> json option" where
  "getParamValue req paramName =
     (case (case req_body req of Some b \<Rightarrow> b paramName | None \<Rightarrow> None) of
        Some v \<Rightarrow> Some v
      | None \<Rightarrow> (case req_query req of Some q \<Rightarrow> q paramName | None \<Rightarrow> None))"

definition endsWith :: "string \<Rightarrow> string \<Rightarrow> bool" where
  "endsWith s suf =
     (length suf \<le> length s \<and> drop (length s - length suf) s = suf)"

text \<open>\<open>s.slice(0, -n)\<close>\<close>

definition slice_end :: "string \<Rightarrow> nat \<Rightarrow> string" where
  "slice_end s n = take (length s - n) s"

text \<open>
  One run of statements stops at the first throw. \<open>None\<close> is normal completion.
\<close>

definition validate_scalar :: "validator \<Rightarrow> json option \<Rightarrow> thrown option" where
  "validate_scalar validatePath v =
     (case as_string v of
        Some s \<Rightarrow> (if s \<noteq> [] then validatePath s else None)
      | None \<Rightarrow> None)"

fun validate_elements :: "validator \<Rightarrow> json list \<Rightarrow> thrown option" where
  "validate_elements validatePath [] = None"
| "validate_elements validatePath (v # vs) =
     (case as_string (Some v) of
        Some s \<Rightarrow>
          (case validatePath s of
             Some e \<Rightarrow> Some e
           | None \<Rightarrow> validate_elements validatePath vs)
      | None \<Rightarrow> validate_elements validatePath vs)"

definition validate_param :: "validator \<Rightarrow> request \<Rightarrow> string \<Rightarrow> thrown option" where
  "validate_param validatePath req paramName =
     (if endsWith paramName ''?'' then
        validate_scalar validatePath (getParamValue req (slice_end paramName 1))
      else if endsWith paramName ''[]'' then
        (case getParamValue req (slice_end paramName 2) of
           Some (JArr vs) \<Rightarrow> validate_elements validatePath vs
         | _ \<Rightarrow> None)
      else validate_scalar validatePath (getParamValue req paramName))"

fun validate_params :: "validator \<Rightarrow> request \<Rightarrow> string list \<Rightarrow> thrown option" where
  "validate_params validatePath req [] = None"
| "validate_params validatePath req (paramName # rest) =
     (case validate_param validatePath req paramName of
        Some e \<Rightarrow> Some e
      | None \<Rightarrow> validate_params validatePath req rest)"

text \<open>How one middleware invocation ends; \<open>next()\<close> is taken to return normally.\<close>

datatype middleware_result = CalledNext | Responded response | Rethrown js_error

definition validatePathParams :: "validator \<Rightarrow> string list \<Rightarrow> request \<Rightarrow> middleware_result" where
  "validatePathParams validatePath paramNames req =
     (case validate_params validatePath req paramNames of
        None \<Rightarrow> CalledNext
      | Some (PathNotAllowedError msg) \<Rightarrow> Responded (error_response 403 msg)
      | Some (Unexpected error) \<Rightarrow> Rethrown error)"

text \<open>
  The values a middleware hands to \<open>validatePath\<close> when none of them throws, in order:
  for each name, the non-empty string found under it, or the string elements of the
  array found under it.
\<close>

definition checked_of :: "request \<Rightarrow> string \<Rightarrow> string list" where
  "checked_of req paramName =
     (if endsWith paramName ''?'' then
        (case getParamValue req (slice_end paramName 1) of
           Some (JStr s) \<Rightarrow> (if s \<noteq> [] then [s] else [])
         | _ \<Rightarrow> [])
      else if endsWith paramName ''[]'' then
        (case getParamValue req (slice_end paramName 2) of
           Some (JArr vs) \<Rightarrow> concat (map (\<lambda>v. case v of JStr s \<Rightarrow> [s] | _ \<Rightarrow> []) vs)
         | _ \<Rightarrow> [])
      else
        (case getParamValue req paramName of
           Some (JStr s) \<Rightarrow> (if s \<noteq> [] then [s] else [])
         | _ \<Rightarrow> []))"

definition checked_values :: "request \<Rightarrow> string list \<Rightarrow> string list" where
  "checked_values req paramNames = concat (map (checked_of req) paramNames)"

text \<open>The first throw among a list of validations.\<close>

fun first_throw :: "validator \<Rightarrow> string list \<Rightarrow> thrown option" where
  "first_throw validatePath [] = None"
| "first_throw validatePath (s # ss) =
     (case validatePath s of Some e \<Rightarrow> Some e | None \<Rightarrow> first_throw validatePath ss)"

section \<open>One-shot queries: text enhancement and title generation\<close>

subsection \<open>JavaScript string operations\<close>

text \<open>
  A string is a list of 8-bit characters, read as the code units 0 to 255 of a JavaScript
  string. \<open>toLowerCase\<close> and \<open>trim\<close> are JavaScript's on that range: the letters A to Z
  and the Latin-1 capitals 192 to 222 (without the multiplication sign, 215) have the
  lower-case letter 32 units above; white space and line terminators are the units 9 to
  13, the space 32 and the no-break space 160.
\<close>

definition toLowerChar :: "char \<Rightarrow> char" where
  "toLowerChar c =
     (case map_of (zip ''ABCDEFGHIJKLMNOPQRSTUVWXYZ'' ''abcdefghijklmnopqrstuvwxyz'') c of
        Some l \<Rightarrow> l
      | None \<Rightarrow>
          (let n = (of_char c :: nat)
           in if 192 \<le> n \<and> n \<le> 222 \<and> n \<noteq> 215 then char_of (n + 32) else c))"

definition toLowerCase :: "string \<Rightarrow> string" where
  "toLowerCase s = map toLowerChar s"

definition isWhiteSpace :: "char \<Rightarrow> bool" where
  "isWhiteSpace c = ((of_char c :: nat) \<in> {9, 10, 11, 12, 13, 32, 160})"

definition trim :: "string \<Rightarrow> string" where
  "trim s = rev (dropWhile isWhiteSpace (rev (dropWhile isWhiteSpace s)))"

subsection \<open>The provider call\<close>

text \<open>
  The options object given to \<open>simpleQuery\<close>. A property the caller does not write is
  \<open>undefined\<close>: \<open>None\<close> for \<open>readOnly\<close> and \<open>thinkingLevel\<close>.
\<close>

record query_options =
  prompt :: string
  model :: string
  cwd :: string
  maxTurns :: nat
  allowedTools :: "string list"
  thinkingLevel :: "json option"
  readOnly :: "bool option"

subsection \<open>POST /enhance-prompt (unnamed/part_009)\<close>

record enhancement_prompts =
  improveSystemPrompt :: string
  technicalSystemPrompt :: string
  simplifySystemPrompt :: string
  acceptanceSystemPrompt :: string
  uxReviewerSystemPrompt :: string

text \<open>
  Modelled from the spec: the type guard \<open>isValidEnhancementMode\<close> of
  lib/enhancement-prompts is not among the sources. It accepts the members of the type
  \<open>EnhancementMode\<close>, which are the five keys the handler's \<open>systemPromptMap\<close> must have,
  the modes its header lists: improve, technical, simplify, acceptance, ux-reviewer.
\<close>

definition enhancement_modes :: "string list" where
  "enhancement_modes = [''improve'', ''technical'', ''simplify'', ''acceptance'', ''ux-reviewer'']"

definition isValidEnhancementMode :: "string \<Rightarrow> bool" where
  "isValidEnhancementMode mode = (mode \<in> set enhancement_modes)"

text \<open>The handler's collaborators that are not part of the route file.\<close>

record enhance_env =
  getPromptCustomization :: "js_error + enhancement_prompts"
  buildUserPrompt :: "string \<Rightarrow> string \<Rightarrow> bool \<Rightarrow> string"
  resolveModelString :: "json option \<Rightarrow> string \<Rightarrow> string"
  sonnet :: string
  enhance_cwd :: string
  enhance_simpleQuery :: "query_options \<Rightarrow> js_error + string"

definition systemPromptMap :: "enhancement_prompts \<Rightarrow> string \<rightharpoonup> string" where
  "systemPromptMap prompts =
     [''improve'' \<mapsto> improveSystemPrompt prompts,
      ''technical'' \<mapsto> technicalSystemPrompt prompts,
      ''simplify'' \<mapsto> simplifySystemPrompt prompts,
      ''acceptance'' \<mapsto> acceptanceSystemPrompt prompts,
      ''ux-reviewer'' \<mapsto> uxReviewerSystemPrompt prompts]"

text \<open>Lines 99 to 102: the mode is lower-cased and replaced by improve when unknown.\<close>

definition validMode :: "string \<Rightarrow> string" where
  "validMode enhancementMode =
     (let normalizedMode = toLowerCase enhancementMode
      in if isValidEnhancementMode normalizedMode then normalizedMode else ''improve'')"

definition enhance_query :: "enhance_env \<Rightarrow> string \<Rightarrow> string \<Rightarrow> json option \<Rightarrow> json option \<Rightarrow> query_options" where
  "enhance_query env systemPrompt userPrompt modelArg level =
     \<lparr>prompt = systemPrompt @ ''\<newline>\<newline>'' @ userPrompt,
      model = resolveModelString env modelArg (sonnet env),
      cwd = enhance_cwd env,
      maxTurns = 1,
      allowedTools = [],
      thinkingLevel = level,
      readOnly = Some True\<rparr>"

text \<open>Lines 132 to 160: the provider call and the response built from its text.\<close>

definition enhance_call :: "enhance_env \<Rightarrow> query_options \<Rightarrow> response \<times> query_options list" where
  "enhance_call env opts =
     (case enhance_simpleQuery env opts of
        Inl error \<Rightarrow> (error_response 500 (err_message error), [opts])
      | Inr enhancedText \<Rightarrow>
          if enhancedText = [] \<or> length (trim enhancedText) = 0 then
            (error_response 500 ''Failed to generate enhanced text - empty response'', [opts])
          else
            (\<lparr>status = 200,
              body = [(''success'', JBool True), (''enhancedText'', JStr (trim enhancedText))]\<rparr>,
             [opts]))"

text \<open>
  The handler returns the response together with the options of every \<open>simpleQuery\<close>
  call it made.
\<close>

definition createEnhanceHandler :: "enhance_env \<Rightarrow> request \<Rightarrow> response \<times> query_options list" where
  "createEnhanceHandler env req =
     (case req_body req of
        None \<Rightarrow> (error_response 500 (err_message destructure_error), [])
      | Some b \<Rightarrow>
          (case (if truthy (b ''originalText'') then as_string (b ''originalText'') else None) of
             None \<Rightarrow> (error_response 400 ''originalText is required and must be a string'', [])
           | Some originalText \<Rightarrow>
               (case (if truthy (b ''enhancementMode'') then as_string (b ''enhancementMode'')
                      else None) of
                  None \<Rightarrow>
                    (error_response 400 ''enhancementMode is required and must be a string'', [])
                | Some enhancementMode \<Rightarrow>
                    if length (trim originalText) = 0 then
                      (error_response 400 ''originalText cannot be empty'', [])
                    else
                      (case getPromptCustomization env of
                         Inl error \<Rightarrow> (error_response 500 (err_message error), [])
                       | Inr prompts \<Rightarrow>
                           (case systemPromptMap prompts (validMode enhancementMode) of
                              None \<Rightarrow>
                                (error_response 500
                                   ''Cannot read properties of undefined (reading length)'', [])
                            | Some systemPrompt \<Rightarrow>
                                enhance_call env
                                  (enhance_query env systemPrompt
                                     (buildUserPrompt env (validMode enhancementMode)
                                        (trim originalText) True)
                                     (b ''model'') (b ''thinkingLevel'')))))))"

subsection \<open>POST /features/generate-title (unnamed/part_006)\<close>

definition SYSTEM_PROMPT :: string where
  \<open>SYSTEM_PROMPT =
     ''You are a title generator. Your task is to create a concise, descriptive title (5-10 words max) for a software feature based on its description.\<newline>\<newline>Rules:\<newline>- Output ONLY the title, nothing else\<newline>- Keep it short and action-oriented (e.g., "Add dark mode toggle", "Fix login validation")\<newline>- Start with a verb when possible (Add, Fix, Update, Implement, Create, etc.)\<newline>- No quotes, periods, or extra formatting\<newline>- Capture the essence of the feature in a scannable way''\<close>

text \<open>The collaborators: \<open>CLAUDE_MODEL_MAP.haiku\<close>, \<open>process.cwd()\<close> and \<open>simpleQuery\<close>.\<close>

record title_env =
  haiku :: string
  title_cwd :: string
  title_simpleQuery :: "query_options \<Rightarrow> js_error + string"

text \<open>Lines 67 to 73: the options written by the title handler. It writes no \<open>readOnly\<close>.\<close>

definition title_query :: "title_env \<Rightarrow> string \<Rightarrow> query_options" where
  "title_query env trimmedDescription =
     \<lparr>prompt = SYSTEM_PROMPT @ ''\<newline>\<newline>'' @
        (''Generate a concise title for this feature:\<newline>\<newline>'' @ trimmedDescription),
      model = haiku env,
      cwd = title_cwd env,
      maxTurns = 1,
      allowedTools = [],
      thinkingLevel = None,
      readOnly = None\<rparr>"

definition createGenerateTitleHandler :: "title_env \<Rightarrow> request \<Rightarrow> response \<times> query_options list" where
  "createGenerateTitleHandler env req =
     (case req_body req of
        None \<Rightarrow> (error_response 500 (err_message destructure_error), [])
      | Some b \<Rightarrow>
          (case (if truthy (b ''description'') then as_string (b ''description'') else None) of
             None \<Rightarrow> (error_response 400 ''description is required and must be a string'', [])
           | Some description \<Rightarrow>
               if length (trim description) = 0 then
                 (error_response 400 ''description cannot be empty'', [])
               else
                 (case title_simpleQuery env (title_query env (trim description)) of
                    Inl error \<Rightarrow>
                      (error_response 500 (err_message error),
                       [title_query env (trim description)])
                  | Inr title \<Rightarrow>
                      if title = [] \<or> length (trim title) = 0 then
                        (error_response 500 ''Failed to generate title - empty response'',
                         [title_query env (trim description)])
                      else
                        (\<lparr>status = 200,
                          body = [(''success'', JBool True), (''title'', JStr (trim title))]\<rparr>,
                         [title_query env (trim description)]))))"

section \<open>Scheduler, Session and ConcurrencyPool\<close>

text \<open>
  Modelled from the spec: the Scheduler, the Session state machine and the
  ConcurrencyPool (sections 3, 4.3 and 4.4 of the specification) are not among the
  sources; only the settings that carry \<open>maxConcurrency\<close> (default 3) and the UI that
  shows running features are. The error kinds are the taxonomy of section 7, the Session
  states those of section 4.3, the Message roles those of section 3.
\<close>

datatype error_kind =
    ProviderNotInstalled | ProviderAuthRequired | RateLimited | Timeout | ProcessCrashed
  | ToolPermissionDenied | WorktreeLockTimeout | WorktreeBusy | CancelledKind | Unknown

datatype session_state = Queued | Spawning | Running | Completed | Failed error_kind | Cancelled

datatype role = User | Agent | Tool | System

text \<open>
  Modelled from the spec: a Message carries a role, ordered content blocks (text,
  tool invocation, tool result) and a sequence number within its Session (section 3).
\<close>

datatype content_block = TextBlock string | ToolInvocation string | ToolResult string

record message =
  msg_role :: role
  msg_content :: "content_block list"
  sequence :: nat

text \<open>
  Modelled from the spec: a Session belongs to one project, runs one provider, is in one
  state and owns an ordered transcript (section 3); the fields no property here reads
  (resolved model, worktree, timestamps, cancellation flag) are left out. The handle that
  \<open>submit\<close> returns is the Session's position in the Scheduler's list, so Sessions are
  listed in submission order.
\<close>

record session =
  project :: string
  provider :: string
  state :: session_state
  transcript :: "message list"

text \<open>
  Modelled from the spec: the Scheduler owns the Sessions and, per project, a
  ConcurrencyPool: the capacity \<open>maxConcurrency\<close> (default 3) and a FIFO queue of pending
  Sessions (section 3).
\<close>

record scheduler =
  sessions :: "session list"
  maxConcurrency :: "string \<Rightarrow> nat"
  queue :: "string \<Rightarrow> nat list"

definition initial :: scheduler where
  "initial = \<lparr>sessions = [], maxConcurrency = (\<lambda>p. 3), queue = (\<lambda>p. [])\<rparr>"


text \<open>
  Modelled from the spec: the concurrency slot of an admitted Session is released when
  the Session reaches a terminal state (section 2); a Session occupies a slot while it is
  Spawning or Running. The Scheduler's own admission test does not read this count; the
  properties below do.
\<close>

definition holds_slot :: "session_state \<Rightarrow> bool" where
  "holds_slot st = (st = Spawning \<or> st = Running)"

definition count_in :: "(session_state \<Rightarrow> bool) \<Rightarrow> scheduler \<Rightarrow> string \<Rightarrow> nat" where
  "count_in P s p = length (filter (\<lambda>x. project x = p \<and> P (state x)) (sessions s))"

definition running_count :: "scheduler \<Rightarrow> string \<Rightarrow> nat" where
  "running_count s p = count_in (\<lambda>st. st = Running) s p"

definition slots_held :: "scheduler \<Rightarrow> string \<Rightarrow> nat" where
  "slots_held s p = count_in holds_slot s p"

definition state_of :: "scheduler \<Rightarrow> nat \<Rightarrow> session_state option" where
  "state_of s h = (if h < length (sessions s) then Some (state (sessions s ! h)) else None)"

definition set_state :: "nat \<Rightarrow> session_state \<Rightarrow> scheduler \<Rightarrow> scheduler" where
  "set_state h st s = s\<lparr>sessions := (sessions s)[h := (sessions s ! h)\<lparr>state := st\<rparr>]\<rparr>"

text \<open>
  Modelled from the spec: a Message is appended to the transcript with the next sequence
  number of its Session (section 3: monotonically increasing sequence number,
  append-only transcript).
\<close>

definition append_message :: "nat \<Rightarrow> role \<Rightarrow> content_block list \<Rightarrow> scheduler \<Rightarrow> scheduler" where
  "append_message h r c s =
     (let x = sessions s ! h;
          m = \<lparr>msg_role = r, msg_content = c, sequence = length (transcript x)\<rparr>
      in s\<lparr>sessions := (sessions s)[h := x\<lparr>transcript := transcript x @ [m]\<rparr>]\<rparr>)"

definition new_session :: "string \<Rightarrow> string \<Rightarrow> session_state \<Rightarrow> session" where
  "new_session p prov st = \<lparr>project = p, provider = prov, state = st, transcript = []\<rparr>"

text \<open>
  Modelled from the spec: the admission rule of section 4.4, "if the count of
  Running-state Sessions for projectId is below that project's maxConcurrency, transition
  the new Session to Spawning immediately; otherwise enqueue FIFO and transition to
  Queued".
\<close>

definition submit :: "string \<Rightarrow> string \<Rightarrow> scheduler \<Rightarrow> scheduler" where
  "submit p prov s =
     (if running_count s p < maxConcurrency s p then
        s\<lparr>sessions := sessions s @ [new_session p prov Spawning]\<rparr>
      else
        s\<lparr>sessions := sessions s @ [new_session p prov Queued],
          queue := (queue s)(p := queue s p @ [length (sessions s)])\<rparr>)"

text \<open>
  Modelled from the spec: "On any Session reaching a terminal state, the Scheduler
  dequeues the next Queued Session for that project (if any) and admits it" (section 4.4).
\<close>

definition admit_next :: "string \<Rightarrow> scheduler \<Rightarrow> scheduler" where
  "admit_next p s =
     (case queue s p of
        [] \<Rightarrow> s
      | h # rest \<Rightarrow> (set_state h Spawning s)\<lparr>queue := (queue s)(p := rest)\<rparr>)"

definition reach_terminal :: "nat \<Rightarrow> session_state \<Rightarrow> scheduler \<Rightarrow> scheduler" where
  "reach_terminal h st s = admit_next (project (sessions s ! h)) (set_state h st s)"

text \<open>
  Modelled from the spec: cancelling a Queued Session removes it from the queue
  (section 8).
\<close>

definition unqueue :: "nat \<Rightarrow> scheduler \<Rightarrow> scheduler" where
  "unqueue h s =
     (let p = project (sessions s ! h) in s\<lparr>queue := (queue s)(p := removeAll h (queue s p))\<rparr>)"

text \<open>
  Modelled from the spec: what can happen to the Scheduler. \<open>Submit\<close>, \<open>Cancel\<close> and
  \<open>SetMaxConcurrency\<close> are the inbound calls of section 6; the others are what a Session's
  subprocess reports: spawning succeeded or failed, a Message arrived, the run completed or
  failed (section 4.3).
\<close>

datatype event =
    Submit string string
  | Started nat
  | SpawnFailed nat error_kind
  | Receive nat role "content_block list"
  | Complete nat
  | Fail nat error_kind
  | Cancel nat
  | SetMaxConcurrency string nat

text \<open>
  Modelled from the spec: the transitions of section 4.3,
  Queued \<open>\<rightarrow>\<close> Spawning \<open>\<rightarrow>\<close> Running \<open>\<rightarrow>\<close> Completed | Failed | Cancelled. A failure while
  Spawning goes to Failed without reaching Running; Messages arrive while Running;
  Cancelled is reachable from Queued, Spawning and Running, and cancelling a Running
  Session appends a synthetic terminal Message; nothing leaves a terminal state. An
  event that does not fit the Session's state changes nothing. \<open>maxConcurrency\<close> is an
  integer of at least 1 (section 6); setting it touches no Session.
\<close>

fun step :: "scheduler \<Rightarrow> event \<Rightarrow> scheduler" where
  "step s (Submit p prov) = submit p prov s"
| "step s (Started h) =
     (if state_of s h = Some Spawning then set_state h Running s else s)"
| "step s (SpawnFailed h k) =
     (if state_of s h = Some Spawning then reach_terminal h (Failed k) s else s)"
| "step s (Receive h r c) =
     (if state_of s h = Some Running then append_message h r c s else s)"
| "step s (Complete h) =
     (if state_of s h = Some Running then reach_terminal h Completed s else s)"
| "step s (Fail h k) =
     (if state_of s h = Some Running then reach_terminal h (Failed k) s else s)"
| "step s (Cancel h) =
     (case state_of s h of
        Some Queued \<Rightarrow> reach_terminal h Cancelled (unqueue h s)
      | Some Spawning \<Rightarrow> reach_terminal h Cancelled s
      | Some Running \<Rightarrow>
          reach_terminal h Cancelled
            (append_message h System [TextBlock ''Session cancelled''] s)
      | _ \<Rightarrow> s)"
| "step s (SetMaxConcurrency p n) =
     (if 1 \<le> n then s\<lparr>maxConcurrency := (maxConcurrency s)(p := n)\<rparr> else s)"

text \<open>The reachable states are those \<open>exec initial\<close> yields.\<close>

definition exec :: "scheduler \<Rightarrow> event list \<Rightarrow> scheduler" where
  "exec s evs = foldl step s evs"

subsection \<open>Vocabulary of the properties\<close>

text \<open>The Queued Sessions of a project, oldest submission first.\<close>

definition queued_handles :: "scheduler \<Rightarrow> string \<Rightarrow> nat list" where
  "queued_handles s p =
     filter (\<lambda>h. project (sessions s ! h) = p \<and> state (sessions s ! h) = Queued)
       [0..<length (sessions s)]"






definition transcripts :: "scheduler \<Rightarrow> message list list" where
  "transcripts s = map transcript (sessions s)"

text \<open>Sequence numbers 0, 1, 2, ...: strictly increasing, without gaps.\<close>

definition numbered :: "message list \<Rightarrow> bool" where
  "numbered t = (map sequence t = [0..<length t])"

subsection \<open>Runs used to exercise the Scheduler\<close>






text \<open>One Session that receives three Messages and is then cancelled.\<close>

definition conversation :: "event list" where
  "conversation = [Submit ''app'' ''cursor'', Started 0,
                   Receive 0 Agent [TextBlock ''Reading the repository''],
                   Receive 0 Agent [ToolInvocation ''ls''],
                   Receive 0 Tool [ToolResult ''src''],
                   Cancel 0]"

section \<open>Concrete collaborators and requests used to exercise the handlers\<close>

text \<open>
  A \<open>path.join\<close> for segments that need no normalisation: the segments separated by a
  slash.
\<close>

fun slash_join :: "string list \<Rightarrow> string" where
  "slash_join [] = ''.''"
| "slash_join [a] = a"
| "slash_join (a # b # rest) = a @ ''/'' @ slash_join (b # rest)"

definition not_a_repository :: js_error where
  "not_a_repository = JsError ''Error'' ''fatal: not a git repository''"

text \<open>A machine on which the feature worktree is missing and git fails everywhere.\<close>

definition broken_git_env :: diffs_env where
  "broken_git_env =
     \<lparr>path_join = slash_join,
      fs_access = (\<lambda>p. False),
      getGitRepositoryDiffs = (\<lambda>p. Inl not_a_repository),
      getErrorMessage = err_message\<rparr>"

definition feature_diffs_request :: request where
  "feature_diffs_request =
     \<lparr>req_body = Some [''projectPath'' \<mapsto> JStr ''/repo'', ''featureId'' \<mapsto> JStr ''feature-1''],
      req_query = None\<rparr>"

text \<open>A \<open>validatePath\<close> that allows paths below /repo and nothing else.\<close>

definition repo_only :: validator where
  "repo_only p = (if take 5 p = ''/repo'' then None else Some (PathNotAllowedError p))"

text \<open>A \<open>validatePath\<close> that fails with an error of another class.\<close>

definition cwd_gone :: js_error where
  "cwd_gone = JsError ''Error'' ''ENOENT: no such file or directory, uv_cwd''"

definition failing_validator :: validator where
  "failing_validator p = Some (Unexpected cwd_gone)"

definition send_request :: request where
  "send_request =
     \<lparr>req_body = Some [''workingDirectory'' \<mapsto> JNum 7,
                       ''imagePaths'' \<mapsto> JArr [JStr ''/repo/a.png'', JNull, JStr ''/etc/passwd'']],
      req_query = None\<rparr>"

definition create_request :: request where
  "create_request =
     \<lparr>req_body = Some [''projectPath'' \<mapsto> JStr ''repo''], req_query = None\<rparr>"

definition default_prompts :: enhancement_prompts where
  "default_prompts =
     \<lparr>improveSystemPrompt = ''Improve the text.'',
      technicalSystemPrompt = ''Add technical detail.'',
      simplifySystemPrompt = ''Simplify the text.'',
      acceptanceSystemPrompt = ''Add acceptance criteria.'',
      uxReviewerSystemPrompt = ''Review the user experience.''\<rparr>"

text \<open>A provider that answers every query with the same text.\<close>

definition echo_enhance_env :: enhance_env where
  "echo_enhance_env =
     \<lparr>getPromptCustomization = Inr default_prompts,
      buildUserPrompt = (\<lambda>mode text examples. mode @ '': '' @ text),
      resolveModelString = (\<lambda>m fallback. case m of Some (JStr x) \<Rightarrow> x | _ \<Rightarrow> fallback),
      sonnet = ''claude-sonnet'',
      enhance_cwd = ''/srv'',
      enhance_simpleQuery = (\<lambda>opts. Inr ''Better text'')\<rparr>"

definition enhance_request :: "string \<Rightarrow> string \<Rightarrow> request" where
  "enhance_request originalText enhancementMode =
     \<lparr>req_body = Some [''originalText'' \<mapsto> JStr originalText,
                       ''enhancementMode'' \<mapsto> JStr enhancementMode],
      req_query = None\<rparr>"

definition echo_title_env :: title_env where
  "echo_title_env =
     \<lparr>haiku = ''claude-haiku'',
      title_cwd = ''/srv'',
      title_simpleQuery = (\<lambda>opts. Inr ''Add dark mode toggle'')\<rparr>"

definition title_request :: request where
  "title_request =
     \<lparr>req_body = Some [''description'' \<mapsto> JStr ''Users want a dark theme''], req_query = None\<rparr>"

section \<open>The worktree diffs handlers\<close>

lemmas diffs_handler_defs =
  createDiffsHandler_def body_field_def diffs_attempt_def diffs_fallback_def
  diff_response_def empty_diff_response_def error_response_def worktreePath_def

text \<open>
  Claim C4. For a request naming a project root and a feature id, the feature handler
  first touches the worktree at \<open>join(projectPath, '.automaker', 'worktrees', featureId)\<close>;
  every call it makes is on that path or on the project root; the path depends on the
  project root and the feature id only, not on the file system or on git; and the handler
  for the main worktree takes its diffs at the project root itself.
\<close>

theorem worktree_path_is_function_of_root_and_feature:
  assumes "req_body req = Some b"
    and "b ''projectPath'' = Some (JStr p)" and "b ''featureId'' = Some (JStr f)"
    and "p \<noteq> []" and "f \<noteq> []"
  shows "(\<exists>rest. snd (createDiffsHandler env req) =
            Access (path_join env [p, ''.automaker'', ''worktrees'', f]) # rest)
       \<and> set (snd (createDiffsHandler env req)) \<subseteq>
            {Access (path_join env [p, ''.automaker'', ''worktrees'', f]),
             Diffs (path_join env [p, ''.automaker'', ''worktrees'', f]), Diffs p}
       \<and> worktreePath (env\<lparr>fs_access := a, getGitRepositoryDiffs := g\<rparr>) p f = worktreePath env p f
       \<and> snd (createGitDiffsHandler gd gm req) = [JStr p]"
  using assms
  by (auto simp: diffs_handler_defs createGitDiffsHandler_def split: sum.splits prod.splits)

theorem worktree_path_is_function_of_root_and_feature_witness:
  "(\<exists>rest. snd (createDiffsHandler broken_git_env feature_diffs_request) =
      Access ''/repo/.automaker/worktrees/feature-1'' # rest)
   \<and> snd (createGitDiffsHandler (\<lambda>v. Inl not_a_repository) err_message feature_diffs_request) =
      [JStr ''/repo'']"
proof -
  have b: "req_body feature_diffs_request =
      Some [''projectPath'' \<mapsto> JStr ''/repo'', ''featureId'' \<mapsto> JStr ''feature-1'']"
    by (simp add: feature_diffs_request_def)
  have p: "[''projectPath'' \<mapsto> JStr ''/repo'', ''featureId'' \<mapsto> JStr ''feature-1''] ''projectPath''
      = Some (JStr ''/repo'')"
    by simp
  have f: "[''projectPath'' \<mapsto> JStr ''/repo'', ''featureId'' \<mapsto> JStr ''feature-1''] ''featureId''
      = Some (JStr ''feature-1'')"
    by simp
  have j: "path_join broken_git_env [''/repo'', ''.automaker'', ''worktrees'', ''feature-1'']
      = ''/repo/.automaker/worktrees/feature-1''"
    by (simp add: broken_git_env_def)
  from worktree_path_is_function_of_root_and_feature
    [OF b p f, where env = broken_git_env and gd = "\<lambda>v. Inl not_a_repository"
       and gm = err_message]
  show ?thesis unfolding j by simp
qed

text \<open>
  Claim C8. For a request carrying both \<open>projectPath\<close> and \<open>featureId\<close>: HTTP 500 is
  answered only when no diff was attempted at all (one of the two values is not a
  string and \<open>path.join\<close> threw). When both are strings the answer is HTTP 200 with
  \<open>success: true\<close> whatever git does; if the worktree is inaccessible or its diff throws,
  the diffs are taken at the main project path, and if that throws too the answer is the
  empty diff with no files and \<open>hasChanges: false\<close>.
\<close>

theorem diffs_handler_hides_git_errors:
  assumes "req_body req = Some b"
    and "truthy (b ''projectPath'')" and "truthy (b ''featureId'')"
  shows "(status (fst (createDiffsHandler env req)) = 500 \<longrightarrow>
            snd (createDiffsHandler env req) = [] \<and>
            (as_string (b ''projectPath'') = None \<or> as_string (b ''featureId'') = None))
       \<and> (\<forall>p f. b ''projectPath'' = Some (JStr p) \<and> b ''featureId'' = Some (JStr f) \<longrightarrow>
            status (fst (createDiffsHandler env req)) = 200
          \<and> map_of (body (fst (createDiffsHandler env req))) ''success'' = Some (JBool True)
          \<and> ((\<not> fs_access env (worktreePath env p f) \<or>
                 isl (getGitRepositoryDiffs env (worktreePath env p f))) \<longrightarrow>
               Diffs p \<in> set (snd (createDiffsHandler env req))
             \<and> fst (createDiffsHandler env req) =
                 (case getGitRepositoryDiffs env p of
                    Inr r \<Rightarrow> diff_response r
                  | Inl e \<Rightarrow> \<lparr>status = 200,
                      body = [(''success'', JBool True), (''diff'', JStr ''''),
                              (''files'', JArr []), (''hasChanges'', JBool False)]\<rparr>)))"
  using assms
  by (auto simp: diffs_handler_defs split: sum.splits prod.splits option.splits)

theorem diffs_handler_hides_git_errors_witness:
  "fst (createDiffsHandler broken_git_env feature_diffs_request) =
     \<lparr>status = 200,
      body = [(''success'', JBool True), (''diff'', JStr ''''),
              (''files'', JArr []), (''hasChanges'', JBool False)]\<rparr>
   \<and> Diffs ''/repo'' \<in> set (snd (createDiffsHandler broken_git_env feature_diffs_request))"
proof -
  have b: "req_body feature_diffs_request =
      Some [''projectPath'' \<mapsto> JStr ''/repo'', ''featureId'' \<mapsto> JStr ''feature-1'']"
    by (simp add: feature_diffs_request_def)
  have t1: "truthy ([''projectPath'' \<mapsto> JStr ''/repo'', ''featureId'' \<mapsto> JStr ''feature-1'']
      ''projectPath'')"
    by simp
  have t2: "truthy ([''projectPath'' \<mapsto> JStr ''/repo'', ''featureId'' \<mapsto> JStr ''feature-1'']
      ''featureId'')"
    by simp
  have g: "getGitRepositoryDiffs broken_git_env ''/repo'' = Inl not_a_repository"
    and a: "\<not> fs_access broken_git_env (worktreePath broken_git_env ''/repo'' ''feature-1'')"
    by (simp_all add: broken_git_env_def)
  from diffs_handler_hides_git_errors [OF b t1 t2, where env = broken_git_env] a g
  show ?thesis by simp
qed

section \<open>The path validation middleware\<close>

lemma first_throw_append:
  "first_throw v (xs @ ys) =
     (case first_throw v xs of Some e \<Rightarrow> Some e | None \<Rightarrow> first_throw v ys)"
  by (induction xs) (auto split: option.splits)

lemma first_throw_None: "first_throw v xs = None \<longleftrightarrow> (\<forall>x \<in> set xs. v x = None)"
  by (induction xs) (auto split: option.splits)

lemma validate_elements_first_throw:
  "validate_elements v vs =
     first_throw v (concat (map (\<lambda>x. case x of JStr s \<Rightarrow> [s] | _ \<Rightarrow> []) vs))"
  by (induction vs) (auto split: option.splits json.splits)

lemma validate_scalar_first_throw:
  "validate_scalar v x =
     first_throw v (case x of Some (JStr s) \<Rightarrow> (if s \<noteq> [] then [s] else []) | _ \<Rightarrow> [])"
  by (cases x rule: as_string.cases) (auto simp: validate_scalar_def split: option.splits)

lemma validate_param_first_throw:
  "validate_param v req n = first_throw v (checked_of req n)"
  by (auto simp: validate_param_def checked_of_def validate_elements_first_throw
      validate_scalar_first_throw split: option.splits json.splits)

lemma validate_params_first_throw:
  "validate_params v req ns = first_throw v (checked_values req ns)"
  by (induction ns)
    (auto simp: checked_values_def first_throw_append validate_param_first_throw
      split: option.splits)

text \<open>
  Claim C9, as amended. The middleware calls \<open>next()\<close> exactly when no checked value
  makes \<open>validatePath\<close> throw anything. When the first throw is a \<open>PathNotAllowedError\<close>
  it answers HTTP 403 with \<open>success: false\<close> and the error's message and does not call
  \<open>next()\<close>; when it is any other error, the error is thrown on, with neither a response
  nor \<open>next()\<close>. The checked values are: for a plain name and for a name ending in
  \<open>?\<close>, the value when it is a non-empty string (absent and non-string values are
  skipped); for a name ending in \<open>[]\<close>, every string element of the array.
\<close>

theorem validatePathParams_outcome:
  "(validatePathParams v ns req = CalledNext \<longleftrightarrow>
      (\<forall>s \<in> set (checked_values req ns). v s = None))
 \<and> (\<forall>msg. first_throw v (checked_values req ns) = Some (PathNotAllowedError msg) \<longrightarrow>
        validatePathParams v ns req =
          Responded \<lparr>status = 403, body = [(''success'', JBool False), (''error'', JStr msg)]\<rparr>)
 \<and> (\<forall>e. first_throw v (checked_values req ns) = Some (Unexpected e) \<longrightarrow>
        validatePathParams v ns req = Rethrown e)
 \<and> (\<forall>n. checked_of req n =
        (if endsWith n ''?'' then
           (case getParamValue req (slice_end n 1) of
              Some (JStr s) \<Rightarrow> (if s \<noteq> [] then [s] else [])
            | _ \<Rightarrow> [])
         else if endsWith n ''[]'' then
           (case getParamValue req (slice_end n 2) of
              Some (JArr vs) \<Rightarrow> concat (map (\<lambda>x. case x of JStr s \<Rightarrow> [s] | _ \<Rightarrow> []) vs)
            | _ \<Rightarrow> [])
         else
           (case getParamValue req n of
              Some (JStr s) \<Rightarrow> (if s \<noteq> [] then [s] else [])
            | _ \<Rightarrow> [])))"
  by (auto simp: validatePathParams_def validate_params_first_throw first_throw_None[symmetric]
      error_response_def checked_of_def split: option.splits thrown.splits)

text \<open>
  A request to a route guarded by \<open>validatePathParams('workingDirectory?', 'imagePaths[]')\<close>:
  the number under \<open>workingDirectory\<close> is skipped, the strings of \<open>imagePaths\<close> are
  checked, and the second of them is refused.
\<close>

theorem validatePathParams_outcome_witness:
  "validatePathParams repo_only [''workingDirectory?'', ''imagePaths[]''] send_request =
     Responded \<lparr>status = 403,
       body = [(''success'', JBool False), (''error'', JStr ''/etc/passwd'')]\<rparr>
   \<and> validatePathParams repo_only [''workingDirectory''] send_request = CalledNext"
proof -
  have c: "checked_values send_request [''workingDirectory?'', ''imagePaths[]''] =
      [''/repo/a.png'', ''/etc/passwd'']"
    by (simp add: checked_values_def checked_of_def endsWith_def slice_end_def
        getParamValue_def send_request_def)
  have t: "first_throw repo_only [''/repo/a.png'', ''/etc/passwd''] =
      Some (PathNotAllowedError ''/etc/passwd'')"
    by (simp add: repo_only_def)
  have d: "checked_values send_request [''workingDirectory''] = []"
    by (simp add: checked_values_def checked_of_def endsWith_def slice_end_def
        getParamValue_def send_request_def)
  from validatePathParams_outcome
    [where v = repo_only and ns = "[''workingDirectory?'', ''imagePaths[]'']"
       and req = send_request] c t
  have first: "validatePathParams repo_only [''workingDirectory?'', ''imagePaths[]'']
      send_request =
      Responded \<lparr>status = 403,
        body = [(''success'', JBool False), (''error'', JStr ''/etc/passwd'')]\<rparr>"
    by simp
  from validatePathParams_outcome
    [where v = repo_only and ns = "[''workingDirectory'']" and req = send_request] d
  have "validatePathParams repo_only [''workingDirectory''] send_request = CalledNext"
    by simp
  with first show ?thesis by simp
qed

text \<open>
  The claim as stated fails when \<open>validatePath\<close> throws an error of another class: the one
  checked value does not make it throw a \<open>PathNotAllowedError\<close>, and yet \<open>next()\<close> is not
  called, because the middleware throws the error on.
\<close>

theorem validatePathParams_rethrows_counterexample:
  "checked_values create_request [''projectPath''] = [''repo'']
   \<and> failing_validator ''repo'' = Some (Unexpected cwd_gone)
   \<and> validatePathParams failing_validator [''projectPath''] create_request = Rethrown cwd_gone
   \<and> validatePathParams failing_validator [''projectPath''] create_request \<noteq> CalledNext"
  by (simp add: validatePathParams_def validate_param_def validate_scalar_def
      checked_values_def checked_of_def endsWith_def slice_end_def getParamValue_def
      create_request_def failing_validator_def)

section \<open>The one-shot query handlers\<close>

lemma validMode_is_a_mode: "validMode m \<in> set enhancement_modes"
  by (simp add: validMode_def isValidEnhancementMode_def enhancement_modes_def Let_def)

lemma systemPromptMap_total:
  "mode \<in> set enhancement_modes \<Longrightarrow> \<exists>sp. systemPromptMap prompts mode = Some sp"
  by (auto simp: enhancement_modes_def systemPromptMap_def)

lemma enhance_call_snd: "snd (enhance_call env opts) = [opts]"
  by (simp add: enhance_call_def split: sum.splits)

lemma enhance_call_status: "status (fst (enhance_call env opts)) \<noteq> 400"
  by (simp add: enhance_call_def error_response_def split: sum.splits)

text \<open>
  Claim C10, as amended. For every enhance request whose \<open>originalText\<close> is a string that
  is not empty after trimming and whose \<open>enhancementMode\<close> is a non-empty string, the
  handler lower-cases the mode, replaces it by improve unless the result is one of
  improve, technical, simplify, acceptance and ux-reviewer, and goes on: the request is
  never answered with HTTP 400, and once the prompts are loaded the provider is called
  once, with the system prompt and the user prompt of that mode.
\<close>

theorem enhance_unknown_mode_falls_back_to_improve:
  assumes "req_body req = Some b"
    and "b ''originalText'' = Some (JStr t)" and "trim t \<noteq> []"
    and "b ''enhancementMode'' = Some (JStr m)" and "m \<noteq> []"
  shows "validMode m =
           (if toLowerCase m \<in> {''improve'', ''technical'', ''simplify'', ''acceptance'', ''ux-reviewer''}
            then toLowerCase m else ''improve'')
       \<and> status (fst (createEnhanceHandler env req)) \<noteq> 400
       \<and> (\<forall>prompts. getPromptCustomization env = Inr prompts \<longrightarrow>
            (\<exists>systemPrompt. systemPromptMap prompts (validMode m) = Some systemPrompt
               \<and> snd (createEnhanceHandler env req) =
                   [enhance_query env systemPrompt
                      (buildUserPrompt env (validMode m) (trim t) True)
                      (b ''model'') (b ''thinkingLevel'')]))"
proof -
  have t: "t \<noteq> []" using assms(3) by (auto simp: trim_def)
  have mode: "validMode m =
      (if toLowerCase m \<in> {''improve'', ''technical'', ''simplify'', ''acceptance'', ''ux-reviewer''}
       then toLowerCase m else ''improve'')"
    by (simp add: validMode_def isValidEnhancementMode_def enhancement_modes_def Let_def)
  have no400: "status (fst (createEnhanceHandler env req)) \<noteq> 400"
    using assms t
    by (simp add: createEnhanceHandler_def error_response_def enhance_call_status
        split: sum.splits option.splits)
  have call: "\<exists>systemPrompt. systemPromptMap prompts (validMode m) = Some systemPrompt
               \<and> snd (createEnhanceHandler env req) =
                   [enhance_query env systemPrompt
                      (buildUserPrompt env (validMode m) (trim t) True)
                      (b ''model'') (b ''thinkingLevel'')]"
    if p: "getPromptCustomization env = Inr prompts" for prompts
  proof -
    obtain sp where sp: "systemPromptMap prompts (validMode m) = Some sp"
      using systemPromptMap_total [OF validMode_is_a_mode] by blast
    show ?thesis
      using assms t p sp by (simp add: createEnhanceHandler_def enhance_call_snd)
  qed
  from mode no400 call show ?thesis by blast
qed

theorem enhance_unknown_mode_falls_back_to_improve_witness:
  "validMode ''Shorten'' = ''improve''
   \<and> validMode ''TECHNICAL'' = ''technical''
   \<and> status (fst (createEnhanceHandler echo_enhance_env (enhance_request ''Add login'' ''Shorten''))) \<noteq> 400
   \<and> map prompt (snd (createEnhanceHandler echo_enhance_env (enhance_request ''Add login'' ''Shorten'')))
       = [''Improve the text.\<newline>\<newline>improve: Add login'']"
proof -
  have b: "req_body (enhance_request ''Add login'' ''Shorten'') =
      Some [''originalText'' \<mapsto> JStr ''Add login'', ''enhancementMode'' \<mapsto> JStr ''Shorten'']"
    by (simp add: enhance_request_def)
  have o: "[''originalText'' \<mapsto> JStr ''Add login'', ''enhancementMode'' \<mapsto> JStr ''Shorten'']
      ''originalText'' = Some (JStr ''Add login'')"
    by simp
  have e: "[''originalText'' \<mapsto> JStr ''Add login'', ''enhancementMode'' \<mapsto> JStr ''Shorten'']
      ''enhancementMode'' = Some (JStr ''Shorten'')"
    by simp
  have t: "trim ''Add login'' = ''Add login''"
    by (simp add: trim_def isWhiteSpace_def)
  have t': "trim ''Add login'' \<noteq> []"
    by (simp add: t)
  have l: "toLowerCase ''Shorten'' = ''shorten''" "toLowerCase ''TECHNICAL'' = ''technical''"
    by (simp_all add: toLowerCase_def toLowerChar_def)
  have g: "getPromptCustomization echo_enhance_env = Inr default_prompts"
    by (simp add: echo_enhance_env_def)
  have "''Shorten'' \<noteq> []" by simp
  note w = enhance_unknown_mode_falls_back_to_improve
    [OF b o t' e this, where env = echo_enhance_env]
  have m1: "validMode ''Shorten'' = ''improve''"
    using w l by simp
  have s: "systemPromptMap default_prompts ''improve'' = Some ''Improve the text.''"
    by (simp add: systemPromptMap_def default_prompts_def)
  have q: "snd (createEnhanceHandler echo_enhance_env (enhance_request ''Add login'' ''Shorten''))
      = [enhance_query echo_enhance_env ''Improve the text.''
           (buildUserPrompt echo_enhance_env ''improve'' ''Add login'' True) None None]"
    using w g s by (auto simp: m1 t)
  have p: "map prompt (snd (createEnhanceHandler echo_enhance_env
      (enhance_request ''Add login'' ''Shorten'')))
       = [''Improve the text.\<newline>\<newline>improve: Add login'']"
    unfolding q by (simp add: enhance_query_def echo_enhance_env_def)
  have m2: "validMode ''TECHNICAL'' = ''technical''"
    by (simp add: validMode_def isValidEnhancementMode_def enhancement_modes_def l)
  from w m1 m2 p show ?thesis by simp
qed

text \<open>
  The claim as stated fails on requests that carry a non-empty \<open>originalText\<close> and a
  string \<open>enhancementMode\<close>: the empty string is an unknown mode and is answered with
  HTTP 400, and so is a text of white space only, be it spaces or a no-break space. None
  of them reaches the provider.
\<close>

theorem enhance_rejects_empty_mode_counterexample:
  "createEnhanceHandler echo_enhance_env (enhance_request ''Add login'' '''') =
     (\<lparr>status = 400,
       body = [(''success'', JBool False),
               (''error'', JStr ''enhancementMode is required and must be a string'')]\<rparr>, [])
   \<and> createEnhanceHandler echo_enhance_env (enhance_request ''   '' ''improve'') =
     (\<lparr>status = 400,
       body = [(''success'', JBool False), (''error'', JStr ''originalText cannot be empty'')]\<rparr>, [])
   \<and> createEnhanceHandler echo_enhance_env (enhance_request [CHR 0xA0] ''improve'') =
     (\<lparr>status = 400,
       body = [(''success'', JBool False), (''error'', JStr ''originalText cannot be empty'')]\<rparr>, [])"
  by (simp add: createEnhanceHandler_def enhance_request_def error_response_def trim_def
      isWhiteSpace_def)

text \<open>
  Claim C5, at a title request. The title handler reaches the provider with an empty
  \<open>allowedTools\<close> list but writes no \<open>readOnly\<close> property, where the enhance handler
  writes \<open>readOnly: true\<close>.
\<close>

theorem title_query_is_not_marked_read_only:
  "map allowedTools (snd (createGenerateTitleHandler echo_title_env title_request)) = [[]]
   \<and> map readOnly (snd (createGenerateTitleHandler echo_title_env title_request)) = [None]
   \<and> map allowedTools
        (snd (createEnhanceHandler echo_enhance_env (enhance_request ''Add login'' ''improve''))) = [[]]
   \<and> map readOnly
        (snd (createEnhanceHandler echo_enhance_env (enhance_request ''Add login'' ''improve'')))
      = [Some True]"
  by (simp add: createGenerateTitleHandler_def title_request_def echo_title_env_def
      title_query_def trim_def isWhiteSpace_def createEnhanceHandler_def enhance_request_def
      echo_enhance_env_def enhance_call_def enhance_query_def validMode_def toLowerCase_def
      toLowerChar_def isValidEnhancementMode_def enhancement_modes_def systemPromptMap_def
      default_prompts_def)

section \<open>The Scheduler: counting, the queue and the transcripts\<close>

lemma filter_update_count:
  "h < length xs \<Longrightarrow>
   length (filter P (xs[h := y])) + (if P (xs ! h) then 1 else 0) =
   length (filter P xs) + (if P y then 1 else 0)"
proof (induction xs arbitrary: h)
  case Nil
  then show ?case by simp
next
  case (Cons x xs)
  show ?case
  proof (cases h)
    case 0
    then show ?thesis by simp
  next
    case (Suc k)
    with Cons.prems have "k < length xs" by simp
    from Cons.IH [OF this] Suc show ?thesis by simp
  qed
qed

lemma sessions_set_state [simp]:
  "sessions (set_state h st s) = (sessions s)[h := (sessions s ! h)\<lparr>state := st\<rparr>]"
  "maxConcurrency (set_state h st s) = maxConcurrency s"
  "queue (set_state h st s) = queue s"
  by (simp_all add: set_state_def)

lemma sessions_append_message [simp]:
  "length (sessions (append_message h r c s)) = length (sessions s)"
  "maxConcurrency (append_message h r c s) = maxConcurrency s"
  "queue (append_message h r c s) = queue s"
  by (simp_all add: append_message_def Let_def)

lemma nth_append_message:
  "i < length (sessions s) \<Longrightarrow>
   project (sessions (append_message h r c s) ! i) = project (sessions s ! i) \<and>
   state (sessions (append_message h r c s) ! i) = state (sessions s ! i)"
  by (cases "i = h") (simp_all add: append_message_def Let_def)


lemma count_in_append_message:
  "count_in P (append_message h r c s) p = count_in P s p"
proof (cases "h < length (sessions s)")
  case True
  from filter_update_count [OF True, of "\<lambda>x. project x = p \<and> P (state x)"
      "(sessions s ! h)\<lparr>transcript := transcript (sessions s ! h) @
         [\<lparr>msg_role = r, msg_content = c, sequence = length (transcript (sessions s ! h))\<rparr>]\<rparr>"]
  show ?thesis by (simp add: count_in_def append_message_def Let_def)
next
  case False
  then show ?thesis by (simp add: count_in_def append_message_def Let_def list_update_beyond)
qed









lemma removeAll_absent: "h \<notin> set xs \<Longrightarrow> removeAll h xs = xs"
  by simp


lemma queued_handles_queue_update [simp]:
  "queued_handles (s\<lparr>queue := x\<rparr>) p = queued_handles s p"
  by (simp add: queued_handles_def)

lemma count_in_queue_update [simp]:
  "count_in P (s\<lparr>queue := x\<rparr>) p = count_in P s p"
  by (simp add: count_in_def)








lemma state_of_append_message [simp]:
  "state_of (append_message h r c s) i = state_of s i"
  by (simp add: state_of_def nth_append_message)

lemma queued_handles_maxConcurrency_update [simp]:
  "queued_handles (s\<lparr>maxConcurrency := x\<rparr>) p = queued_handles s p"
  by (simp add: queued_handles_def)




lemma exec_Cons [simp]: "exec s (e # evs) = exec (step s e) evs"
  by (simp add: exec_def)

lemma exec_Nil [simp]: "exec s [] = s"
  by (simp add: exec_def)

lemma exec_append: "exec s (xs @ ys) = exec (exec s xs) ys"
  by (simp add: exec_def)


lemma count_in_maxConcurrency_update [simp]:
  "count_in P (s\<lparr>maxConcurrency := x\<rparr>) p = count_in P s p"
  by (simp add: count_in_def)

lemma maxConcurrency_submit [simp]: "maxConcurrency (submit p prov s) = maxConcurrency s"
  by (simp add: submit_def)

lemma unqueue_fields [simp]:
  "maxConcurrency (unqueue h s) = maxConcurrency s"
  "sessions (unqueue h s) = sessions s"
  by (simp_all add: unqueue_def Let_def)

lemma maxConcurrency_admit_next [simp]:
  "maxConcurrency (admit_next p s) = maxConcurrency s"
  by (simp add: admit_next_def split: list.splits)

lemma maxConcurrency_reach_terminal [simp]:
  "maxConcurrency (reach_terminal h st s) = maxConcurrency s"
  by (simp add: reach_terminal_def)


lemma slots_append_message [simp]:
  "slots_held (append_message h r c s) p = slots_held s p"
  by (simp add: slots_held_def count_in_append_message)

lemma queued_handles_unqueue [simp]: "queued_handles (unqueue h s) p = queued_handles s p"
  by (simp add: queued_handles_def)

lemma slots_unqueue [simp]: "slots_held (unqueue h s) p = slots_held s p"
  by (simp add: slots_held_def count_in_def)













lemma transcripts_set_state [simp]: "transcripts (set_state h st s) = transcripts s"
  by (cases "h < length (sessions s)")
    (simp_all add: transcripts_def map_update list_update_beyond list_update_same_conv)

lemma transcripts_queue_update [simp]: "transcripts (s\<lparr>queue := x\<rparr>) = transcripts s"
  by (simp add: transcripts_def)

lemma transcripts_admit_next [simp]: "transcripts (admit_next p s) = transcripts s"
  by (simp add: admit_next_def split: list.splits)

lemma transcripts_reach_terminal [simp]: "transcripts (reach_terminal h st s) = transcripts s"
  by (simp add: reach_terminal_def)

lemma transcripts_unqueue [simp]: "transcripts (unqueue h s) = transcripts s"
  by (simp add: transcripts_def)

lemma transcripts_submit [simp]: "transcripts (submit p prov s) = transcripts s @ [[]]"
  by (simp add: transcripts_def submit_def new_session_def)

lemma transcripts_append_message:
  "h < length (sessions s) \<Longrightarrow>
   transcripts (append_message h r c s) =
     (transcripts s)[h := transcripts s ! h @
        [\<lparr>msg_role = r, msg_content = c, sequence = length (transcripts s ! h)\<rparr>]]"
  by (simp add: transcripts_def append_message_def Let_def map_update)

text \<open>What one event does to the transcripts.\<close>

lemma transcripts_step:
  "transcripts (step s e) = transcripts s
   \<or> transcripts (step s e) = transcripts s @ [[]]
   \<or> (\<exists>h r c. h < length (transcripts s) \<and>
        transcripts (step s e) = (transcripts s)[h := transcripts s ! h @
          [\<lparr>msg_role = r, msg_content = c, sequence = length (transcripts s ! h)\<rparr>]])"
proof (cases e)
  case (Receive h r c)
  show ?thesis
  proof (cases "state_of s h = Some Running")
    case True
    then have h: "h < length (sessions s)" by (simp add: state_of_def split: if_splits)
    then have "h < length (transcripts s)" by (simp add: transcripts_def)
    moreover from True Receive transcripts_append_message [OF h, of r c]
    have "transcripts (step s e) = (transcripts s)[h := transcripts s ! h @
        [\<lparr>msg_role = r, msg_content = c, sequence = length (transcripts s ! h)\<rparr>]]"
      by simp
    ultimately show ?thesis by blast
  next
    case False
    with Receive show ?thesis by simp
  qed
next
  case (Cancel h)
  show ?thesis
  proof (cases "state_of s h = Some Running")
    case True
    then have h: "h < length (sessions s)" by (simp add: state_of_def split: if_splits)
    then have "h < length (transcripts s)" by (simp add: transcripts_def)
    moreover from True Cancel transcripts_append_message [OF h, of System "[TextBlock ''Session cancelled'']"]
    have "transcripts (step s e) = (transcripts s)[h := transcripts s ! h @
        [\<lparr>msg_role = System, msg_content = [TextBlock ''Session cancelled''],
          sequence = length (transcripts s ! h)\<rparr>]]"
      by simp
    ultimately show ?thesis by blast
  next
    case False
    with Cancel show ?thesis
      by (simp split: option.splits session_state.splits)
  qed
next
  case (SetMaxConcurrency p n)
  then show ?thesis by (simp add: transcripts_def)
qed simp_all

lemma prefix_step:
  assumes "h < length (transcripts s)"
  shows "h < length (transcripts (step s e))
       \<and> prefix (transcripts s ! h) (transcripts (step s e) ! h)"
  using transcripts_step [of s e] assms
  by (auto simp: nth_append nth_list_update)

lemma prefix_exec:
  assumes "h < length (transcripts s)"
  shows "h < length (transcripts (exec s evs))
       \<and> prefix (transcripts s ! h) (transcripts (exec s evs) ! h)"
  using assms
proof (induction evs arbitrary: s)
  case Nil
  then show ?case by simp
next
  case (Cons e evs)
  from prefix_step [OF Cons.prems, of e] Cons.IH [of "step s e"] show ?case
    by (auto intro: prefix_order.trans)
qed

lemma numbered_snoc:
  "numbered t \<Longrightarrow> numbered (t @ [\<lparr>msg_role = r, msg_content = c, sequence = length t\<rparr>])"
  by (simp add: numbered_def)

lemma numbered_step:
  assumes "\<forall>t \<in> set (transcripts s). numbered t"
  shows "\<forall>t \<in> set (transcripts (step s e)). numbered t"
proof -
  from transcripts_step [of s e] show ?thesis
  proof (elim disjE exE conjE)
    assume "transcripts (step s e) = transcripts s"
    with assms show ?thesis by simp
  next
    assume "transcripts (step s e) = transcripts s @ [[]]"
    with assms show ?thesis by (simp add: numbered_def)
  next
    fix h r c
    assume h: "h < length (transcripts s)"
      and eq: "transcripts (step s e) = (transcripts s)[h := transcripts s ! h @
          [\<lparr>msg_role = r, msg_content = c, sequence = length (transcripts s ! h)\<rparr>]]"
    from h assms have "numbered (transcripts s ! h)" by simp
    from numbered_snoc [OF this] assms show ?thesis
      unfolding eq by (auto dest!: set_update_subset_insert [THEN subsetD])
  qed
qed

lemma numbered_exec:
  "\<forall>t \<in> set (transcripts s). numbered t \<Longrightarrow> \<forall>t \<in> set (transcripts (exec s evs)). numbered t"
proof (induction evs arbitrary: s)
  case Nil
  then show ?case by simp
next
  case (Cons e evs)
  from Cons.IH [OF numbered_step [OF Cons.prems]] show ?case by simp
qed


section \<open>The Scheduler's properties\<close>







text \<open>
  Claim C3. In every reachable state the sequence numbers of every Session's transcript
  are 0, 1, 2, ... in order: strictly increasing, without gaps, whatever the provider.
  The transcript is append-only: from any state, after any events, every Session is
  still there and its earlier transcript is a prefix of its later one, so no Message
  once written is changed or removed.
\<close>

theorem transcript_numbered_and_append_only:
  "(h < length (sessions (exec initial evs)) \<longrightarrow>
      map sequence (transcript (sessions (exec initial evs) ! h)) =
        [0..<length (transcript (sessions (exec initial evs) ! h))])
 \<and> (h < length (sessions s) \<longrightarrow>
      h < length (sessions (exec s evs))
    \<and> prefix (transcript (sessions s ! h)) (transcript (sessions (exec s evs) ! h)))"
proof -
  have "\<forall>t \<in> set (transcripts initial). numbered t"
    by (simp add: transcripts_def initial_def)
  from numbered_exec [OF this, of evs]
  have "h < length (sessions (exec initial evs)) \<Longrightarrow>
      numbered (transcript (sessions (exec initial evs) ! h))"
    by (simp add: transcripts_def)
  with prefix_exec [of h s evs] show ?thesis
    by (auto simp: transcripts_def numbered_def)
qed

theorem transcript_numbered_and_append_only_witness:
  "map sequence (transcript (sessions (exec initial conversation) ! 0)) = [0, 1, 2, 3]
   \<and> map msg_role (transcript (sessions (exec initial conversation) ! 0)) =
       [Agent, Agent, Tool, System]"
proof -
  have l: "0 < length (sessions (exec initial conversation))"
    by code_simp
  have n: "length (transcript (sessions (exec initial conversation) ! 0)) = 4"
    by code_simp
  have c: "map msg_role (transcript (sessions (exec initial conversation) ! 0)) =
       [Agent, Agent, Tool, System]"
    by code_simp
  have u: "[0..<4] = [0, 1, 2, 3::nat]"
    by code_simp
  from transcript_numbered_and_append_only [of 0 conversation] l
  have "map sequence (transcript (sessions (exec initial conversation) ! 0)) =
        [0..<length (transcript (sessions (exec initial conversation) ! 0))]"
    by blast
  with n u c show ?thesis by simp
qed

end
